theory Spec2Isabelle
  imports Main "HOL-Library.Word" "HOL-Library.Sublist"
begin

section \<open>gen\_secret.py: the tracker secret generator\<close>

text \<open>
  The script is five statements long:
  \<^verbatim>\<open>
  secret = secrets.token_hex(32)
  print(secret)
  if len(sys.argv) > 1 and sys.argv[1] == '--save':
      with open('.tracker_secret', 'w') as f:
          f.write(secret)
      print(f"\nSecret saved to .tracker_secret", file=sys.stderr)
  \<close>
  Everything it touches outside itself is made explicit: the argument vector, the
  operating system's random bytes, the two output streams, the files of the working
  directory, and whether the operating system lets the file be opened and written.
\<close>

subsection \<open>Hexadecimal encoding of random bytes\<close>

type_synonym byte = "8 word"

definition newline :: char where
  "newline = CHR 0x0A"

definition hex_digits :: string where
  "hex_digits = ''0123456789abcdef''"

text \<open>One byte is two digits, the high nibble first (\<^verbatim>\<open>binascii.hexlify\<close>).\<close>

definition hex_byte :: "byte \<Rightarrow> string" where
  "hex_byte b = [hex_digits ! (unat b div 16), hex_digits ! (unat b mod 16)]"

definition hexlify :: "byte list \<Rightarrow> string" where
  "hexlify bs = concat (map hex_byte bs)"

text \<open>
  \<^verbatim>\<open>os.urandom\<close> is the operating system's stream of random bytes: the byte read
  at position \<open>i\<close>. \<^verbatim>\<open>secrets.token_bytes(n)\<close> reads \<open>n\<close> of them, and
  \<^verbatim>\<open>secrets.token_hex(n)\<close> is their hexadecimal text.
\<close>

definition token_bytes :: "(nat \<Rightarrow> byte) \<Rightarrow> nat \<Rightarrow> byte list" where
  "token_bytes urandom n = map urandom [0..<n]"

definition token_hex :: "(nat \<Rightarrow> byte) \<Rightarrow> nat \<Rightarrow> string" where
  "token_hex urandom n = hexlify (token_bytes urandom n)"

subsection \<open>The process and its surroundings\<close>

type_synonym path = string

text \<open>
  The exceptions the script can meet. An \<open>OSError\<close> carries the line Python prints
  for it, such as
  \<^verbatim>\<open>PermissionError: [Errno 13] Permission denied: '.tracker_secret'\<close>.
\<close>

datatype py_error = IndexError | OSError string

record world =
  stdout :: string
  stderr :: string
  files :: "path \<rightharpoonup> string"

text \<open>
  What the surroundings decide: \<open>open_fails\<close> is the error \<^verbatim>\<open>open\<close> raises, if
  any; \<open>write_fails\<close> is the error raised while the data is written and the file
  closed, if any, with the number of characters that reached the file before it.
\<close>

record env =
  argv :: "string list"
  urandom :: "nat \<Rightarrow> byte"
  open_fails :: "string option"
  write_fails :: "(string \<times> nat) option"

definition tracker_file :: path where
  "tracker_file = ''.tracker_secret''"

definition saved_notice :: string where
  "saved_notice = newline # ''Secret saved to .tracker_secret''"

text \<open>\<^verbatim>\<open>print(s)\<close> and \<^verbatim>\<open>print(s, file=sys.stderr)\<close>: the text, then a newline.\<close>

definition print_stdout :: "string \<Rightarrow> world \<Rightarrow> world" where
  "print_stdout s w = w\<lparr>stdout := stdout w @ s @ [newline]\<rparr>"

definition print_stderr :: "string \<Rightarrow> world \<Rightarrow> world" where
  "print_stderr s w = w\<lparr>stderr := stderr w @ s @ [newline]\<rparr>"

text \<open>\<^verbatim>\<open>xs[i]\<close> for a non-negative index: out of range raises.\<close>

definition py_index :: "'a list \<Rightarrow> nat \<Rightarrow> py_error + 'a" where
  "py_index xs i = (if i < length xs then Inr (xs ! i) else Inl IndexError)"

text \<open>
  \<^verbatim>\<open>len(sys.argv) > 1 and sys.argv[1] == '--save'\<close>: \<^verbatim>\<open>and\<close> evaluates its
  right operand only when the left one is true.
\<close>

definition save_requested :: "string list \<Rightarrow> py_error + bool" where
  "save_requested av =
     (if 1 < length av
      then (case py_index av 1 of
              Inl e \<Rightarrow> Inl e
            | Inr a \<Rightarrow> Inr (a = ''--save''))
      else Inr False)"

text \<open>\<^verbatim>\<open>open(p, 'w')\<close>: raises, or creates the file or truncates it to nothing.\<close>

definition open_w :: "env \<Rightarrow> path \<Rightarrow> world \<Rightarrow> py_error + world" where
  "open_w e p w =
     (case open_fails e of
        Some m \<Rightarrow> Inl (OSError m)
      | None \<Rightarrow> Inr (w\<lparr>files := (files w)(p \<mapsto> [])\<rparr>))"

text \<open>
  Writing at the start of a file replaces the characters the data covers; what the
  file held beyond them stays where it is.
\<close>

definition overwrite :: "string \<Rightarrow> string \<Rightarrow> string" where
  "overwrite d old = d @ drop (length d) old"

text \<open>
  \<^verbatim>\<open>f.write(data)\<close> and the close at the end of the \<^verbatim>\<open>with\<close> block. The
  handle stands at the start of the file as \<^verbatim>\<open>open\<close> left it, so the data (or
  the part of it written before the error) is written over that content from
  position 0.
\<close>

definition write_close :: "env \<Rightarrow> path \<Rightarrow> string \<Rightarrow> world \<Rightarrow> (py_error \<times> world) + world" where
  "write_close e p d w =
     (let old = (case files w p of None \<Rightarrow> [] | Some c \<Rightarrow> c)
      in case write_fails e of
           Some (m, k) \<Rightarrow>
             Inl (OSError m, w\<lparr>files := (files w)(p \<mapsto> overwrite (take k d) old)\<rparr>)
         | None \<Rightarrow> Inr (w\<lparr>files := (files w)(p \<mapsto> overwrite d old)\<rparr>))"

text \<open>
  The module body. An exception leaves with the world as it was when it was raised.
\<close>

definition script :: "env \<Rightarrow> world \<Rightarrow> (py_error \<times> world) + world" where
  "script e w =
     (let secret = token_hex (urandom e) 32;
          w1 = print_stdout secret w
      in case save_requested (argv e) of
           Inl x \<Rightarrow> Inl (x, w1)
         | Inr False \<Rightarrow> Inr w1
         | Inr True \<Rightarrow>
             (case open_w e tracker_file w1 of
                Inl x \<Rightarrow> Inl (x, w1)
              | Inr w2 \<Rightarrow>
                  (case write_close e tracker_file secret w2 of
                     Inl (x, w3) \<Rightarrow> Inl (x, w3)
                   | Inr w3 \<Rightarrow> Inr (print_stderr saved_notice w3))))"

text \<open>
  The interpreter around the script: an exception nobody caught is printed on standard
  error as a traceback ending in the exception's line, and the exit status is 1;
  otherwise it is 0. The frame lines of the traceback are left out.
\<close>

definition exc_line :: "py_error \<Rightarrow> string" where
  "exc_line x = (case x of
                   IndexError \<Rightarrow> ''IndexError: list index out of range''
                 | OSError m \<Rightarrow> m)"

definition traceback :: "py_error \<Rightarrow> string" where
  "traceback x = ''Traceback (most recent call last):'' @ [newline] @ exc_line x @ [newline]"

record process = world +
  exit_code :: nat

definition start :: "(path \<rightharpoonup> string) \<Rightarrow> world" where
  "start fs = \<lparr>stdout = [], stderr = [], files = fs\<rparr>"

definition python_run :: "env \<Rightarrow> (path \<rightharpoonup> string) \<Rightarrow> process" where
  "python_run e fs =
     (case script e (start fs) of
        Inr w \<Rightarrow> \<lparr>stdout = stdout w, stderr = stderr w, files = files w, exit_code = 0\<rparr>
      | Inl (x, w) \<Rightarrow>
          \<lparr>stdout = stdout w, stderr = stderr w @ traceback x, files = files w,
           exit_code = 1\<rparr>)"

abbreviation secret_of :: "env \<Rightarrow> string" where
  "secret_of e \<equiv> token_hex (urandom e) 32"

text \<open>
  The value of a hexadecimal digit, for reading the encoding back: \<open>0\<close> to \<open>9\<close> are
  the character codes 48 to 57, \<open>a\<close> to \<open>f\<close> are 97 to 102.
\<close>

definition hex_value :: "char \<Rightarrow> nat" where
  "hex_value c =
     (let n = of_char c
      in if 48 \<le> n \<and> n \<le> 57 then n - 48 else n - 87)"

text \<open>A sample byte stream for the worked examples: 3, 10, 17, ...\<close>

definition sample_urandom :: "nat \<Rightarrow> byte" where
  "sample_urandom i = of_nat (7 * i + 3)"

subsection \<open>The encoding\<close>

lemma length_hex_byte: "length (hex_byte b) = 2"
  by (simp add: hex_byte_def)

lemma length_hexlify: "length (hexlify bs) = 2 * length bs"
  by (induction bs) (simp_all add: hexlify_def length_hex_byte)

lemma distinct_hex_digits: "distinct hex_digits"
  by (simp add: hex_digits_def)

lemma length_hex_digits: "length hex_digits = 16"
  by (simp add: hex_digits_def)

lemma hex_digit_inj:
  assumes "i < 16" "j < 16" "hex_digits ! i = hex_digits ! j"
  shows "i = j"
  using assms distinct_hex_digits length_hex_digits
  by (simp add: nth_eq_iff_index_eq)

lemma unat_byte_div: "unat (b :: byte) div 16 < 16"
proof -
  have "unat b < 2 ^ LENGTH(8)" by (rule unsigned_less)
  then show ?thesis by simp
qed

lemma hex_byte_inj:
  assumes "hex_byte b = hex_byte c"
  shows "b = c"
proof -
  from assms have hi: "hex_digits ! (unat b div 16) = hex_digits ! (unat c div 16)"
    and lo: "hex_digits ! (unat b mod 16) = hex_digits ! (unat c mod 16)"
    by (simp_all add: hex_byte_def)
  have "unat b div 16 = unat c div 16"
    by (rule hex_digit_inj [OF unat_byte_div unat_byte_div hi])
  moreover have "unat b mod 16 = unat c mod 16"
    by (rule hex_digit_inj [OF _ _ lo]) simp_all
  ultimately have "unat b = unat c"
    by (metis div_mult_mod_eq)
  then show ?thesis by (simp add: word_unat_eq_iff)
qed

lemma hexlify_Cons: "hexlify (b # bs) = hex_byte b @ hexlify bs"
  by (simp add: hexlify_def)

lemma hexlify_inj:
  "hexlify bs = hexlify cs \<Longrightarrow> bs = cs"
proof (induction bs arbitrary: cs)
  case Nil
  then have "length (hexlify cs) = 0" by (simp add: hexlify_def)
  then show ?case by (simp add: length_hexlify)
next
  case (Cons b bs)
  then have "length (hexlify cs) = 2 * Suc (length bs)"
    by (metis length_hexlify length_Cons)
  then obtain c cs' where cs: "cs = c # cs'"
    by (cases cs) (simp_all add: length_hexlify)
  from Cons.prems have "hex_byte b @ hexlify bs = hex_byte c @ hexlify cs'"
    by (simp add: cs hexlify_Cons)
  then have "hex_byte b = hex_byte c" "hexlify bs = hexlify cs'"
    by (simp_all add: length_hex_byte)
  then show ?case
    using Cons.IH hex_byte_inj cs by blast
qed

lemma hex_byte_digits: "set (hex_byte b) \<subseteq> set hex_digits"
proof -
  have "unat b mod 16 < length hex_digits" "unat b div 16 < length hex_digits"
    using unat_byte_div by (simp_all add: length_hex_digits)
  then show ?thesis
    by (simp add: hex_byte_def)
qed

lemma hexlify_digits: "set (hexlify bs) \<subseteq> set hex_digits"
  using hex_byte_digits by (auto simp: hexlify_def)

lemma length_token_bytes: "length (token_bytes r n) = n"
  by (simp add: token_bytes_def)

lemma length_token_hex: "length (token_hex r n) = 2 * n"
  by (simp add: token_hex_def length_hexlify length_token_bytes)

lemma token_hex_digits: "set (token_hex r n) \<subseteq> set hex_digits"
  by (simp add: token_hex_def hexlify_digits)

lemma newline_not_hex: "newline \<notin> set hex_digits"
  by (simp add: newline_def hex_digits_def)

lemma hex_value_digit: "i < 16 \<Longrightarrow> hex_value (hex_digits ! i) = i"
proof -
  assume "i < 16"
  then have "i \<in> set [0..<16]" by simp
  moreover have "\<forall>j\<in>set [0..<16]. hex_value (hex_digits ! j) = j"
    by code_simp
  ultimately show ?thesis by blast
qed

lemma hex_byte_value:
  "16 * hex_value (hex_byte b ! 0) + hex_value (hex_byte b ! 1) = unat b"
proof -
  have "unat b mod 16 < 16" by simp
  then show ?thesis
    by (simp add: hex_byte_def hex_value_digit unat_byte_div)
qed

lemma sample_token:
  "token_hex sample_urandom 32 =
     ''030a11181f262d343b424950575e656c737a81888f969da4abb2b9c0c7ced5dc''"
  by code_simp

lemma secret_no_newline: "newline \<notin> set (token_hex r n)"
  using token_hex_digits [of r n] newline_not_hex by blast

lemma secret_hex: "set (token_hex r n) \<subseteq> set ''0123456789abcdef''"
  using token_hex_digits [of r n] by (simp add: hex_digits_def)

subsection \<open>The four ways a run can go\<close>

lemma save_requested_eq:
  "save_requested av = Inr (1 < length av \<and> av ! 1 = ''--save'')"
  by (simp add: save_requested_def py_index_def)

lemma overwrite_empty: "overwrite d [] = d"
  by (simp add: overwrite_def)

lemma open_w_truncates:
  "open_fails e = None \<Longrightarrow> open_w e p w = Inr (w\<lparr>files := (files w)(p \<mapsto> [])\<rparr>)"
  by (simp add: open_w_def)

lemma write_close_keeps_tail:
  assumes "write_fails e = None" "files w p = Some old"
  shows "write_close e p d w =
    Inr (w\<lparr>files := (files w)(p \<mapsto> d @ drop (length d) old)\<rparr>)"
  using assms by (simp add: write_close_def overwrite_def)

lemma write_without_truncation_example:
  "write_close
     \<lparr>argv = [], urandom = sample_urandom, open_fails = None, write_fails = None\<rparr>
     ''.tracker_secret'' ''0123''
     \<lparr>stdout = [], stderr = [], files = [''.tracker_secret'' \<mapsto> ''old contents'']\<rparr>
   = Inr \<lparr>stdout = [], stderr = [],
          files = [''.tracker_secret'' \<mapsto> ''0123contents'']\<rparr>"
  by (simp add: write_close_def overwrite_def)

lemma script_plain:
  assumes "\<not> (1 < length (argv e) \<and> argv e ! 1 = ''--save'')"
  shows "script e w = Inr (print_stdout (token_hex (urandom e) 32) w)"
proof -
  from assms have "save_requested (argv e) = Inr False"
    by (simp add: save_requested_eq)
  then show ?thesis by (simp add: script_def Let_def)
qed

lemma script_open_fails:
  assumes "1 < length (argv e)" "argv e ! 1 = ''--save''" "open_fails e = Some m"
  shows "script e w = Inl (OSError m, print_stdout (token_hex (urandom e) 32) w)"
proof -
  from assms have "save_requested (argv e) = Inr True"
    by (simp add: save_requested_eq)
  with assms show ?thesis by (simp add: script_def Let_def open_w_def)
qed

lemma script_write_fails:
  assumes "1 < length (argv e)" "argv e ! 1 = ''--save''" "open_fails e = None"
    "write_fails e = Some (m, k)"
  shows "script e w =
    Inl (OSError m,
      w\<lparr>stdout := stdout w @ token_hex (urandom e) 32 @ [newline],
        files := (files w)(tracker_file \<mapsto> take k (token_hex (urandom e) 32))\<rparr>)"
proof -
  from assms have "save_requested (argv e) = Inr True"
    by (simp add: save_requested_eq)
  with assms show ?thesis
    by (simp add: script_def Let_def open_w_def write_close_def overwrite_def
        print_stdout_def)
qed

lemma script_saved:
  assumes "1 < length (argv e)" "argv e ! 1 = ''--save''" "open_fails e = None"
    "write_fails e = None"
  shows "script e w =
    Inr (w\<lparr>stdout := stdout w @ token_hex (urandom e) 32 @ [newline],
          stderr := stderr w @ saved_notice @ [newline],
          files := (files w)(tracker_file \<mapsto> token_hex (urandom e) 32)\<rparr>)"
proof -
  from assms have "save_requested (argv e) = Inr True"
    by (simp add: save_requested_eq)
  with assms show ?thesis
    by (simp add: script_def Let_def open_w_def write_close_def overwrite_def print_stdout_def
        print_stderr_def)
qed

lemma run_plain:
  assumes "\<not> (1 < length (argv e) \<and> argv e ! 1 = ''--save'')"
  shows "python_run e fs =
    \<lparr>stdout = token_hex (urandom e) 32 @ [newline], stderr = [], files = fs,
     exit_code = 0\<rparr>"
  by (simp add: python_run_def script_plain [OF assms] print_stdout_def start_def)

lemma run_open_fails:
  assumes "1 < length (argv e)" "argv e ! 1 = ''--save''" "open_fails e = Some m"
  shows "python_run e fs =
    \<lparr>stdout = token_hex (urandom e) 32 @ [newline], stderr = traceback (OSError m),
     files = fs, exit_code = 1\<rparr>"
  by (simp add: python_run_def script_open_fails [OF assms] print_stdout_def start_def)

lemma run_write_fails:
  assumes "1 < length (argv e)" "argv e ! 1 = ''--save''" "open_fails e = None"
    "write_fails e = Some (m, k)"
  shows "python_run e fs =
    \<lparr>stdout = token_hex (urandom e) 32 @ [newline], stderr = traceback (OSError m),
     files = fs(tracker_file \<mapsto> take k (token_hex (urandom e) 32)), exit_code = 1\<rparr>"
  by (simp add: python_run_def script_write_fails [OF assms] start_def)

lemma run_saved:
  assumes "1 < length (argv e)" "argv e ! 1 = ''--save''" "open_fails e = None"
    "write_fails e = None"
  shows "python_run e fs =
    \<lparr>stdout = token_hex (urandom e) 32 @ [newline], stderr = saved_notice @ [newline],
     files = fs(tracker_file \<mapsto> token_hex (urandom e) 32), exit_code = 0\<rparr>"
  by (simp add: python_run_def script_saved [OF assms] start_def)

lemma run_cases:
  obtains (plain) "\<not> (1 < length (argv e) \<and> argv e ! 1 = ''--save'')"
  | (open_fails) m where "1 < length (argv e)" "argv e ! 1 = ''--save''"
      "open_fails e = Some m"
  | (write_fails) m k where "1 < length (argv e)" "argv e ! 1 = ''--save''"
      "open_fails e = None" "write_fails e = Some (m, k)"
  | (saved) "1 < length (argv e)" "argv e ! 1 = ''--save''" "open_fails e = None"
      "write_fails e = None"
  by (cases "open_fails e"; cases "write_fails e") auto

lemma stdout_run: "stdout (python_run e fs) = token_hex (urandom e) 32 @ [newline]"
  by (cases e rule: run_cases)
    (simp_all add: run_plain run_open_fails run_write_fails run_saved)

section \<open>The claims\<close>

text \<open>
  C1. Whatever the arguments, and whether or not the file can be written, standard
  output holds exactly the secret followed by one newline: 64 characters, each a
  lowercase hexadecimal digit, none of them a newline.
\<close>

theorem stdout_is_one_hex_line:
  "stdout (python_run e fs) = secret_of e @ [newline] \<and>
   length (secret_of e) = 64 \<and>
   set (secret_of e) \<subseteq> set ''0123456789abcdef'' \<and>
   newline \<notin> set (secret_of e)"
  by (simp only: stdout_run length_token_hex secret_hex secret_no_newline) simp

theorem stdout_is_one_hex_line_witness:
  "stdout (python_run
     \<lparr>argv = [''gen_secret.py'', ''whatever''], urandom = sample_urandom,
      open_fails = None, write_fails = None\<rparr> Map.empty) =
   ''030a11181f262d343b424950575e656c737a81888f969da4abb2b9c0c7ced5dc'' @ [CHR 0x0A]"
  using stdout_is_one_hex_line
    [of "\<lparr>argv = [''gen_secret.py'', ''whatever''], urandom = sample_urandom,
      open_fails = None, write_fails = None\<rparr>" Map.empty]
  by (simp add: sample_token newline_def)

text \<open>
  C2. When the first argument is \<open>--save\<close> and the file can be opened and written,
  \<open>.tracker_secret\<close> ends up holding exactly the string that was printed: 64
  characters, no newline. \<open>open\<close> empties the file before the write, so nothing of
  what it held before is left, however long it was, and no other file changes.
\<close>

theorem save_writes_printed_secret:
  assumes "argv e = prog # ''--save'' # rest"
    and "open_fails e = None" and "write_fails e = None"
  shows "stdout (python_run e fs) = secret_of e @ [newline] \<and>
    files (python_run e fs) ''.tracker_secret'' = Some (secret_of e) \<and>
    files (python_run e fs) = fs(''.tracker_secret'' \<mapsto> secret_of e) \<and>
    length (secret_of e) = 64 \<and> newline \<notin> set (secret_of e) \<and>
    open_w e ''.tracker_secret'' (print_stdout (secret_of e) (start fs)) =
      Inr (print_stdout (secret_of e) (start fs)
             \<lparr>files := fs(''.tracker_secret'' \<mapsto> [])\<rparr>)"
proof -
  have "python_run e fs =
    \<lparr>stdout = secret_of e @ [newline], stderr = saved_notice @ [newline],
     files = fs(tracker_file \<mapsto> secret_of e), exit_code = 0\<rparr>"
    using assms by (intro run_saved) simp_all
  moreover have "open_w e ''.tracker_secret'' (print_stdout (secret_of e) (start fs)) =
      Inr (print_stdout (secret_of e) (start fs)
             \<lparr>files := fs(''.tracker_secret'' \<mapsto> [])\<rparr>)"
    using assms(2) by (simp add: open_w_truncates print_stdout_def start_def)
  ultimately show ?thesis
    by (simp add: tracker_file_def length_token_hex secret_no_newline)
qed

theorem save_writes_printed_secret_witness:
  "64 < length ''ffffffffffffffffffffffffffffffffffffffffffffffffffffffffffffffff and a tail'' \<and>
   files (python_run
     \<lparr>argv = [''gen_secret.py'', ''--save''], urandom = sample_urandom,
      open_fails = None, write_fails = None\<rparr>
     [''.tracker_secret'' \<mapsto>
        ''ffffffffffffffffffffffffffffffffffffffffffffffffffffffffffffffff and a tail'',
      ''notes.txt'' \<mapsto> ''kept''])
   = [''.tracker_secret'' \<mapsto>
        ''030a11181f262d343b424950575e656c737a81888f969da4abb2b9c0c7ced5dc'',
      ''notes.txt'' \<mapsto> ''kept'']"
  using save_writes_printed_secret
    [of "\<lparr>argv = [''gen_secret.py'', ''--save''], urandom = sample_urandom,
      open_fails = None, write_fails = None\<rparr>" "''gen_secret.py''" "[]"
      "[''.tracker_secret'' \<mapsto>
          ''ffffffffffffffffffffffffffffffffffffffffffffffffffffffffffffffff and a tail'',
        ''notes.txt'' \<mapsto> ''kept'']"]
  by (simp add: sample_token fun_upd_twist)

text \<open>
  C3. The file is touched only when the first argument is exactly \<open>--save\<close>. With no
  argument, or with any other first argument (also when \<open>--save\<close> comes later), the
  files after the run are the files before it, whatever the surroundings would have
  answered. With \<open>--save\<close> first and the file opened, \<open>.tracker_secret\<close> is
  rewritten: with the secret, or with the part of it written before a write error.
\<close>

theorem file_touched_only_on_first_arg_save:
  "(\<not> (1 < length (argv e) \<and> argv e ! 1 = ''--save'') \<longrightarrow>
      files (python_run e fs) = fs) \<and>
   (1 < length (argv e) \<and> argv e ! 1 = ''--save'' \<and> open_fails e = None \<longrightarrow>
      files (python_run e fs) =
        fs(''.tracker_secret'' \<mapsto>
          (case write_fails e of
             None \<Rightarrow> secret_of e
           | Some (m, k) \<Rightarrow> take k (secret_of e))))"
proof (cases e rule: run_cases)
  case plain
  then show ?thesis using run_plain [OF plain, of fs] by auto
next
  case (open_fails m)
  then show ?thesis by simp
next
  case (write_fails m k)
  then show ?thesis by (simp add: run_write_fails tracker_file_def)
next
  case saved
  then show ?thesis by (simp add: run_saved tracker_file_def)
qed

theorem file_touched_only_on_first_arg_save_witness:
  "files (python_run
     \<lparr>argv = [''gen_secret.py''], urandom = sample_urandom,
      open_fails = None, write_fails = None\<rparr> [''.tracker_secret'' \<mapsto> ''old''])
     = [''.tracker_secret'' \<mapsto> ''old''] \<and>
   files (python_run
     \<lparr>argv = [''gen_secret.py'', ''foo'', ''--save''], urandom = sample_urandom,
      open_fails = None, write_fails = None\<rparr> [''.tracker_secret'' \<mapsto> ''old''])
     = [''.tracker_secret'' \<mapsto> ''old''] \<and>
   files (python_run
     \<lparr>argv = [''gen_secret.py'', ''--save'', ''foo''], urandom = sample_urandom,
      open_fails = None, write_fails = None\<rparr> [''.tracker_secret'' \<mapsto> ''old''])
     = [''.tracker_secret'' \<mapsto>
         ''030a11181f262d343b424950575e656c737a81888f969da4abb2b9c0c7ced5dc'']"
  using
    file_touched_only_on_first_arg_save
      [of "\<lparr>argv = [''gen_secret.py''], urandom = sample_urandom,
        open_fails = None, write_fails = None\<rparr>" "[''.tracker_secret'' \<mapsto> ''old'']"]
    file_touched_only_on_first_arg_save
      [of "\<lparr>argv = [''gen_secret.py'', ''foo'', ''--save''], urandom = sample_urandom,
        open_fails = None, write_fails = None\<rparr>" "[''.tracker_secret'' \<mapsto> ''old'']"]
    file_touched_only_on_first_arg_save
      [of "\<lparr>argv = [''gen_secret.py'', ''--save'', ''foo''], urandom = sample_urandom,
        open_fails = None, write_fails = None\<rparr>" "[''.tracker_secret'' \<mapsto> ''old'']"]
  by (simp add: sample_token)

text \<open>
  C4. A first argument other than \<open>--save\<close> changes nothing: the whole outcome of
  the run (both streams, the files, the exit status) is that of a run with no argument,
  namely the secret line on standard output, nothing on standard error, the files
  untouched and exit status 0.
\<close>

theorem other_first_arg_like_no_arg:
  assumes "a \<noteq> ''--save''"
  shows "python_run (e\<lparr>argv := prog # a # rest\<rparr>) fs = python_run (e\<lparr>argv := [prog]\<rparr>) fs \<and>
    python_run (e\<lparr>argv := prog # a # rest\<rparr>) fs =
      \<lparr>stdout = secret_of e @ [newline], stderr = [], files = fs, exit_code = 0\<rparr>"
  using assms by (simp add: run_plain)

theorem other_first_arg_like_no_arg_witness:
  "''foo'' \<noteq> ''--save'' \<and>
   python_run \<lparr>argv = [''gen_secret.py'', ''foo'', ''--save''], urandom = sample_urandom,
      open_fails = Some ''PermissionError: [Errno 13] Permission denied'',
      write_fails = None\<rparr> Map.empty =
   python_run \<lparr>argv = [''gen_secret.py''], urandom = sample_urandom,
      open_fails = Some ''PermissionError: [Errno 13] Permission denied'',
      write_fails = None\<rparr> Map.empty \<and>
   python_run \<lparr>argv = [''gen_secret.py'', ''foo'', ''--save''], urandom = sample_urandom,
      open_fails = Some ''PermissionError: [Errno 13] Permission denied'',
      write_fails = None\<rparr> Map.empty =
   \<lparr>stdout = ''030a11181f262d343b424950575e656c737a81888f969da4abb2b9c0c7ced5dc'' @ [CHR 0x0A],
    stderr = [], files = Map.empty, exit_code = 0\<rparr>"
  using other_first_arg_like_no_arg
    [where a = "''foo''" and prog = "''gen_secret.py''" and rest = "[''--save'']"
      and fs = Map.empty
      and e = "\<lparr>argv = [], urandom = sample_urandom,
        open_fails = Some ''PermissionError: [Errno 13] Permission denied'',
        write_fails = None\<rparr>"]
  by (auto simp add: sample_token newline_def)

text \<open>
  C5. When \<open>--save\<close> is asked for and the file cannot be opened, or the write
  fails, the run ends with exit status 1, the error's line ends what standard error
  received, and standard output still holds the secret line: the exception leaves
  the script with that line already printed. Nothing is retried: after a failed
  \<open>open\<close> the files are as they were, after a failed write the file holds what was
  written before the error.
\<close>

theorem write_failure_is_fatal:
  assumes "argv e = prog # ''--save'' # rest"
    and "open_fails e = Some m \<or> (open_fails e = None \<and> write_fails e = Some (m, k))"
  shows "exit_code (python_run e fs) = 1 \<and> exit_code (python_run e fs) \<noteq> 0 \<and>
    stdout (python_run e fs) = secret_of e @ [newline] \<and>
    stderr (python_run e fs) = traceback (OSError m) \<and>
    suffix (m @ [newline]) (stderr (python_run e fs)) \<and>
    (case script e (start fs) of
       Inl (x, w) \<Rightarrow> x = OSError m \<and> stdout w = secret_of e @ [newline]
     | Inr w \<Rightarrow> False) \<and>
    files (python_run e fs) =
      (if open_fails e = Some m then fs
       else fs(''.tracker_secret'' \<mapsto> take k (secret_of e)))"
proof -
  have flag: "1 < length (argv e)" "argv e ! 1 = ''--save''"
    using assms(1) by simp_all
  have sfx: "suffix (m @ [newline]) (traceback (OSError m))"
    by (simp add: traceback_def exc_line_def suffix_def)
  from assms(2) show ?thesis
  proof
    assume o: "open_fails e = Some m"
    show ?thesis
      using sfx o
      by (simp add: run_open_fails [OF flag o] script_open_fails [OF flag o]
          print_stdout_def start_def)
  next
    assume "open_fails e = None \<and> write_fails e = Some (m, k)"
    then have o: "open_fails e = None" and w: "write_fails e = Some (m, k)"
      by simp_all
    show ?thesis
      using sfx o
      by (simp add: run_write_fails [OF flag o w] script_write_fails [OF flag o w]
          start_def tracker_file_def)
  qed
qed

theorem write_failure_is_fatal_witness:
  "python_run
     \<lparr>argv = [''gen_secret.py'', ''--save''], urandom = sample_urandom,
      open_fails = Some ''PermissionError: [Errno 13] Permission denied'',
      write_fails = None\<rparr> [''.tracker_secret'' \<mapsto> ''old''] =
   \<lparr>stdout = ''030a11181f262d343b424950575e656c737a81888f969da4abb2b9c0c7ced5dc'' @ [CHR 0x0A],
    stderr = ''Traceback (most recent call last):'' @ [CHR 0x0A] @
             ''PermissionError: [Errno 13] Permission denied'' @ [CHR 0x0A],
    files = [''.tracker_secret'' \<mapsto> ''old''], exit_code = 1\<rparr> \<and>
   python_run
     \<lparr>argv = [''gen_secret.py'', ''--save''], urandom = sample_urandom,
      open_fails = None,
      write_fails = Some (''OSError: [Errno 28] No space left on device'', 5)\<rparr>
      [''.tracker_secret'' \<mapsto> ''old''] =
   \<lparr>stdout = ''030a11181f262d343b424950575e656c737a81888f969da4abb2b9c0c7ced5dc'' @ [CHR 0x0A],
    stderr = ''Traceback (most recent call last):'' @ [CHR 0x0A] @
             ''OSError: [Errno 28] No space left on device'' @ [CHR 0x0A],
    files = [''.tracker_secret'' \<mapsto> ''030a1''], exit_code = 1\<rparr>"
proof -
  let ?e1 = "\<lparr>argv = [''gen_secret.py'', ''--save''], urandom = sample_urandom,
      open_fails = Some ''PermissionError: [Errno 13] Permission denied'',
      write_fails = None\<rparr>"
  let ?e2 = "\<lparr>argv = [''gen_secret.py'', ''--save''], urandom = sample_urandom,
      open_fails = None,
      write_fails = Some (''OSError: [Errno 28] No space left on device'', 5)\<rparr>"
  have "argv ?e1 = ''gen_secret.py'' # ''--save'' # []" by simp
  moreover have "open_fails ?e1 = Some ''PermissionError: [Errno 13] Permission denied'' \<or>
    (open_fails ?e1 = None \<and>
     write_fails ?e1 = Some (''PermissionError: [Errno 13] Permission denied'', 0))"
    by simp
  ultimately have r1: "python_run ?e1 [''.tracker_secret'' \<mapsto> ''old''] =
   \<lparr>stdout = ''030a11181f262d343b424950575e656c737a81888f969da4abb2b9c0c7ced5dc'' @ [CHR 0x0A],
    stderr = ''Traceback (most recent call last):'' @ [CHR 0x0A] @
             ''PermissionError: [Errno 13] Permission denied'' @ [CHR 0x0A],
    files = [''.tracker_secret'' \<mapsto> ''old''], exit_code = 1\<rparr>"
    using write_failure_is_fatal [of ?e1 "''gen_secret.py''" "[]"
        "''PermissionError: [Errno 13] Permission denied''" 0 "[''.tracker_secret'' \<mapsto> ''old'']"]
    by (cases "python_run ?e1 [''.tracker_secret'' \<mapsto> ''old'']")
      (simp add: sample_token newline_def traceback_def exc_line_def)
  have "argv ?e2 = ''gen_secret.py'' # ''--save'' # []" by simp
  moreover have "open_fails ?e2 = Some ''OSError: [Errno 28] No space left on device'' \<or>
    (open_fails ?e2 = None \<and>
     write_fails ?e2 = Some (''OSError: [Errno 28] No space left on device'', 5))"
    by simp
  ultimately have r2: "python_run ?e2 [''.tracker_secret'' \<mapsto> ''old''] =
   \<lparr>stdout = ''030a11181f262d343b424950575e656c737a81888f969da4abb2b9c0c7ced5dc'' @ [CHR 0x0A],
    stderr = ''Traceback (most recent call last):'' @ [CHR 0x0A] @
             ''OSError: [Errno 28] No space left on device'' @ [CHR 0x0A],
    files = [''.tracker_secret'' \<mapsto> ''030a1''], exit_code = 1\<rparr>"
    using write_failure_is_fatal [of ?e2 "''gen_secret.py''" "[]"
        "''OSError: [Errno 28] No space left on device''" 5 "[''.tracker_secret'' \<mapsto> ''old'']"]
    by (cases "python_run ?e2 [''.tracker_secret'' \<mapsto> ''old'']")
      (simp add: sample_token newline_def traceback_def exc_line_def)
  from r1 r2 show ?thesis by blast
qed

text \<open>
  C6. When \<open>--save\<close> is asked for and the write succeeds, standard error receives
  an empty line and then the line \<open>Secret saved to .tracker_secret\<close>; standard
  output holds the secret line and nothing else (only hexadecimal digits and the
  newline), and the exit status is 0.
\<close>

theorem save_confirms_on_stderr:
  assumes "argv e = prog # ''--save'' # rest"
    and "open_fails e = None" and "write_fails e = None"
  shows "stderr (python_run e fs) =
      [newline] @ ''Secret saved to .tracker_secret'' @ [newline] \<and>
    stdout (python_run e fs) = secret_of e @ [newline] \<and>
    set (stdout (python_run e fs)) \<subseteq> set ''0123456789abcdef'' \<union> {newline} \<and>
    exit_code (python_run e fs) = 0"
proof -
  have "python_run e fs =
    \<lparr>stdout = secret_of e @ [newline], stderr = saved_notice @ [newline],
     files = fs(tracker_file \<mapsto> secret_of e), exit_code = 0\<rparr>"
    using assms by (intro run_saved) simp_all
  then have out: "stdout (python_run e fs) = secret_of e @ [newline]"
    and err: "stderr (python_run e fs) =
      [newline] @ ''Secret saved to .tracker_secret'' @ [newline]"
    and ex: "exit_code (python_run e fs) = 0"
    by (simp_all add: saved_notice_def)
  have "set (secret_of e) \<union> set [newline] \<subseteq> set ''0123456789abcdef'' \<union> {newline}"
    by (rule Un_mono [OF secret_hex]) simp
  then have sub: "set (stdout (python_run e fs)) \<subseteq> set ''0123456789abcdef'' \<union> {newline}"
    by (simp only: out set_append)
  from out err ex sub show ?thesis by blast
qed

theorem save_confirms_on_stderr_witness:
  "python_run
     \<lparr>argv = [''gen_secret.py'', ''--save''], urandom = sample_urandom,
      open_fails = None, write_fails = None\<rparr> Map.empty =
   \<lparr>stdout = ''030a11181f262d343b424950575e656c737a81888f969da4abb2b9c0c7ced5dc'' @ [CHR 0x0A],
    stderr = [CHR 0x0A] @ ''Secret saved to .tracker_secret'' @ [CHR 0x0A],
    files = [''.tracker_secret'' \<mapsto>
      ''030a11181f262d343b424950575e656c737a81888f969da4abb2b9c0c7ced5dc''],
    exit_code = 0\<rparr>"
  using
    save_confirms_on_stderr
      [of "\<lparr>argv = [''gen_secret.py'', ''--save''], urandom = sample_urandom,
        open_fails = None, write_fails = None\<rparr>" "''gen_secret.py''" "[]" Map.empty]
    run_saved
      [of "\<lparr>argv = [''gen_secret.py'', ''--save''], urandom = sample_urandom,
        open_fails = None, write_fails = None\<rparr>" Map.empty]
  by (simp add: sample_token newline_def tracker_file_def saved_notice_def)

text \<open>
  C7. The secret is the hexadecimal text of the 32 bytes read from the random source.
  The encoding writes each byte as exactly two lowercase digits, the high nibble first,
  with nothing between bytes: reading the two digits back gives the byte, the text of
  \<open>n\<close> bytes has \<open>2 * n\<close> characters, and two byte sequences with the same text are
  the same sequence.
\<close>

theorem secret_is_hex_of_32_bytes:
  "secret_of e = hexlify (map (urandom e) [0..<32]) \<and>
   length (map (urandom e) [0..<32]) = 32 \<and>
   length (hexlify bs) = 2 * length bs \<and>
   (hexlify bs = hexlify cs \<longrightarrow> bs = cs) \<and>
   hexlify (b # bs) = hex_byte b @ hexlify bs \<and>
   length (hex_byte b) = 2 \<and>
   16 * hex_value (hex_byte b ! 0) + hex_value (hex_byte b ! 1) = unat b \<and>
   set (hexlify bs) \<subseteq> set ''0123456789abcdef''"
proof -
  have "set (hexlify bs) \<subseteq> set ''0123456789abcdef''"
    using hexlify_digits [of bs] by (simp add: hex_digits_def)
  moreover have "hexlify bs = hexlify cs \<longrightarrow> bs = cs"
    using hexlify_inj by blast
  moreover have "secret_of e = hexlify (map (urandom e) [0..<32])"
    by (simp add: token_hex_def token_bytes_def)
  moreover have "length (map (urandom e) [0..<32]) = 32" by simp
  ultimately show ?thesis
    using length_hexlify [of bs] hexlify_Cons [of b bs] length_hex_byte [of b]
      hex_byte_value [of b]
    by blast
qed

theorem secret_is_hex_of_32_bytes_witness:
  "hexlify [0xde, 0xad, 0x0b] = ''dead0b'' \<and>
   length ''dead0b'' = 2 * length [0xde, 0xad, 0x0b :: byte] \<and>
   hex_byte 0xde = ''de'' \<and>
   16 * hex_value CHR ''d'' + hex_value CHR ''e'' = unat (0xde :: byte) \<and>
   secret_of \<lparr>argv = [], urandom = sample_urandom, open_fails = None, write_fails = None\<rparr>
     = ''030a11181f262d343b424950575e656c737a81888f969da4abb2b9c0c7ced5dc''"
proof -
  have h: "hexlify [0xde, 0xad, 0x0b] = ''dead0b''" by code_simp
  have b: "hex_byte 0xde = ''de''" by code_simp
  have "hexlify [0xde, 0xad, 0x0b] = hexlify [0xde, 0xad, 0x0b]" by simp
  then show ?thesis
    using secret_is_hex_of_32_bytes
      [of "\<lparr>argv = [], urandom = sample_urandom, open_fails = None, write_fails = None\<rparr>"
        "[0xde, 0xad, 0x0b]" "[0xde, 0xad, 0x0b]" "0xde"]
    by (simp add: h b sample_token)
qed

text \<open>
  C9. The test of the first argument never faults. For every argument vector, the
  empty one included, it returns a truth value, namely whether a second element
  exists and is \<open>--save\<close>; \<open>sys.argv[1]\<close> alone would raise on a vector shorter
  than two, and the script never ends in an \<open>IndexError\<close>.
\<close>

theorem argv_index_is_guarded:
  "save_requested av = Inr (1 < length av \<and> av ! 1 = ''--save'') \<and>
   save_requested av \<noteq> Inl IndexError \<and>
   save_requested [] = Inr False \<and>
   py_index ([] :: string list) 1 = Inl IndexError \<and>
   script e w \<noteq> Inl (IndexError, w')"
proof -
  have "script e w \<noteq> Inl (IndexError, w')"
    by (cases e rule: run_cases)
      (simp_all add: script_plain script_open_fails script_write_fails script_saved)
  then show ?thesis
    by (simp add: save_requested_eq py_index_def)
qed

theorem argv_index_is_guarded_witness:
  "save_requested [] = Inr False \<and>
   save_requested [''gen_secret.py''] = Inr False \<and>
   save_requested [''gen_secret.py'', ''--save''] = Inr True \<and>
   save_requested [''gen_secret.py'', ''-s'', ''--save''] = Inr False"
  using argv_index_is_guarded [of "[]"]
    argv_index_is_guarded [of "[''gen_secret.py'']"]
    argv_index_is_guarded [of "[''gen_secret.py'', ''--save'']"]
    argv_index_is_guarded [of "[''gen_secret.py'', ''-s'', ''--save'']"]
  by simp

text \<open>
  C10. The notice on standard error comes only after the file has been written. When
  \<open>open\<close> or the write raises, the script itself has written nothing to standard
  error and what the run leaves there (the traceback) does not begin with the notice.
  Conversely, a run whose standard error is the notice had no error and left the
  secret in \<open>.tracker_secret\<close>.
\<close>

theorem notice_only_after_write:
  "(1 < length (argv e) \<and> argv e ! 1 = ''--save'' \<and>
      (open_fails e \<noteq> None \<or> write_fails e \<noteq> None) \<longrightarrow>
      (case script e (start fs) of
         Inl (x, w) \<Rightarrow> stderr w = []
       | Inr w \<Rightarrow> False) \<and>
      \<not> prefix ([newline] @ ''Secret saved to .tracker_secret'')
          (stderr (python_run e fs))) \<and>
   (stderr (python_run e fs) = [newline] @ ''Secret saved to .tracker_secret'' @ [newline] \<longrightarrow>
      open_fails e = None \<and> write_fails e = None \<and>
      files (python_run e fs) ''.tracker_secret'' = Some (secret_of e))"
proof -
  have np: "\<not> prefix ([newline] @ ''Secret saved to .tracker_secret'') (traceback x)" for x
    by (simp add: traceback_def newline_def)
  have ne: "traceback x \<noteq> [newline] @ ''Secret saved to .tracker_secret'' @ [newline]" for x
    by (simp add: traceback_def newline_def)
  show ?thesis
  proof (cases e rule: run_cases)
    case plain
    then show ?thesis using run_plain [OF plain, of fs] by auto
  next
    case (open_fails m)
    then show ?thesis
      using np ne
      by (simp add: run_open_fails script_open_fails print_stdout_def start_def)
  next
    case (write_fails m k)
    then show ?thesis
      using np ne
      by (simp add: run_write_fails script_write_fails start_def)
  next
    case saved
    then show ?thesis
      by (simp add: run_saved tracker_file_def)
  qed
qed

theorem notice_only_after_write_witness:
  "stderr (python_run
     \<lparr>argv = [''gen_secret.py'', ''--save''], urandom = sample_urandom,
      open_fails = None,
      write_fails = Some (''OSError: [Errno 28] No space left on device'', 0)\<rparr> Map.empty)
    = ''Traceback (most recent call last):'' @ [CHR 0x0A] @
      ''OSError: [Errno 28] No space left on device'' @ [CHR 0x0A] \<and>
   script
     \<lparr>argv = [''gen_secret.py'', ''--save''], urandom = sample_urandom,
      open_fails = None,
      write_fails = Some (''OSError: [Errno 28] No space left on device'', 0)\<rparr>
     (start Map.empty)
    = Inl (OSError ''OSError: [Errno 28] No space left on device'',
        \<lparr>stdout = ''030a11181f262d343b424950575e656c737a81888f969da4abb2b9c0c7ced5dc'' @ [CHR 0x0A],
         stderr = [], files = [''.tracker_secret'' \<mapsto> []]\<rparr>) \<and>
   stderr (python_run
     \<lparr>argv = [''gen_secret.py'', ''--save''], urandom = sample_urandom,
      open_fails = None, write_fails = None\<rparr> Map.empty)
    = [CHR 0x0A] @ ''Secret saved to .tracker_secret'' @ [CHR 0x0A] \<and>
   files (python_run
     \<lparr>argv = [''gen_secret.py'', ''--save''], urandom = sample_urandom,
      open_fails = None, write_fails = None\<rparr> Map.empty) ''.tracker_secret''
    = Some ''030a11181f262d343b424950575e656c737a81888f969da4abb2b9c0c7ced5dc''"
proof -
  let ?bad = "\<lparr>argv = [''gen_secret.py'', ''--save''], urandom = sample_urandom,
      open_fails = None,
      write_fails = Some (''OSError: [Errno 28] No space left on device'', 0)\<rparr>"
  let ?good = "\<lparr>argv = [''gen_secret.py'', ''--save''], urandom = sample_urandom,
      open_fails = None, write_fails = None\<rparr>"
  have flag: "1 < length (argv ?bad)" "argv ?bad ! 1 = ''--save''"
    "open_fails ?bad = None"
    "write_fails ?bad = Some (''OSError: [Errno 28] No space left on device'', 0)"
    by simp_all
  have flag': "1 < length (argv ?good)" "argv ?good ! 1 = ''--save''"
    "open_fails ?good = None" "write_fails ?good = None"
    by simp_all
  have good: "stderr (python_run ?good Map.empty) =
    [newline] @ ''Secret saved to .tracker_secret'' @ [newline]"
    by (simp add: run_saved [OF flag'] saved_notice_def)
  show ?thesis
    using notice_only_after_write [of ?bad Map.empty]
      notice_only_after_write [of ?good Map.empty] good
    by (simp add: run_write_fails [OF flag] script_write_fails [OF flag] start_def
        sample_token newline_def traceback_def exc_line_def tracker_file_def)
qed

end
